theory Spec2Isabelle
  imports Main
begin

section \<open>The marker-file writer \<^verbatim>\<open>onedrive_sync.c\<close>\<close>

text \<open>
  The program is one C function, \<^verbatim>\<open>main\<close>: it reads the environment variable
  \<^verbatim>\<open>USERPROFILE\<close>, formats a destination path into a 512-byte buffer with
  \<^verbatim>\<open>snprintf\<close>, prints the path, opens it for writing, writes one line, closes the
  stream and reports the outcome.

  Everything the function does is a call into the C library, so the model makes the
  library's side of each call explicit:
  \<^item> what the operating system decides (the value of an environment variable, whether
    an open succeeds, how much of the written data reaches the file) is a record
    \<open>os\<close> of parameters;
  \<^item> what the program changes (the files, and the sequence of calls that are visible
    from outside) is a record \<open>world\<close> that every call takes and returns.

  A C string is modelled by the list of its bytes before the terminating NUL, so the
  values of type \<^typ>\<open>string\<close> that the program can receive contain no NUL byte.
  File contents are the characters written to the stream.
\<close>

subsection \<open>String constants of the source\<close>

definition env_name :: string where
  "env_name = ''USERPROFILE''"

definition fmt_dest :: string where
  "fmt_dest = ''%s'' @ [CHR 0x5C] @ ''OneDrive'' @ [CHR 0x5C] @ ''DatRainCacheTest.txt''"

definition fmt_copying :: string where
  "fmt_copying = ''Copying file to: %s'' @ [CHR 0x0A]"

definition msg_no_profile :: string where
  "msg_no_profile = ''USERPROFILE not found. Are you on Windows?'' @ [CHR 0x0A]"

definition msg_open_failed :: string where
  "msg_open_failed = ''Failed to open file in OneDrive folder.'' @ [CHR 0x0A]"

definition fmt_line :: string where
  "fmt_line = ''This is a DatRain sync test.'' @ [CHR 0x0A]"

definition msg_created :: string where
  "msg_created =
     ''File created in OneDrive folder. It should sync automatically.'' @ [CHR 0x0A]"

subsection \<open>Formatting\<close>

text \<open>
  The only conversion the program's format strings use is \<^verbatim>\<open>%s\<close>, which copies the
  next argument. Every other character of the format is copied as it is. (A \<^verbatim>\<open>%s\<close>
  with no argument left is undefined in C and does not occur in the program; the model
  copies nothing for it.)
\<close>

fun format :: "string \<Rightarrow> string list \<Rightarrow> string" where
  "format (c # d # fs) as =
     (if c = CHR ''%'' \<and> d = CHR ''s''
      then (case as of [] \<Rightarrow> format fs [] | a # as' \<Rightarrow> a @ format fs as')
      else c # format (d # fs) as)"
| "format fs as = fs"

text \<open>
  \<^verbatim>\<open>snprintf(buf, n, fmt, ...)\<close> stores at most \<open>n - 1\<close> characters of the formatted
  text and a terminator, and returns the length the whole text would have had. The
  first component is the C string left in the buffer.
\<close>

definition snprintf :: "nat \<Rightarrow> string \<Rightarrow> string list \<Rightarrow> string \<times> int" where
  "snprintf n fmt as = (take (n - 1) (format fmt as), int (length (format fmt as)))"

subsection \<open>The operating system and the observable world\<close>

record os =
  getenv :: "string \<Rightarrow> string option"
  fopen_ok :: "string \<Rightarrow> bool"
  fprintf_ok :: bool
  room :: nat

text \<open>
  \<open>getenv os v\<close> is the value of the variable \<open>v\<close>, \<open>None\<close> for the null pointer.
  \<open>fopen_ok os p\<close> says whether opening \<open>p\<close> for writing succeeds. \<open>fprintf_ok os\<close>
  says whether a write to an open file stream is accepted by the stream, and
  \<open>room os\<close> is the number of bytes the storage takes when the stream is flushed.
\<close>

datatype event =
    Stdout string
  | Stderr string
  | Fopen string
  | Fprintf string string
  | Fclose string

record world =
  files :: "string \<rightharpoonup> string"
  trace :: "event list"

record cfile =
  fpath :: string
  fbuf :: string

definition emit :: "event \<Rightarrow> world \<Rightarrow> world" where
  "emit e w = w\<lparr>trace := trace w @ [e]\<rparr>"

definition printf :: "string \<Rightarrow> string list \<Rightarrow> world \<Rightarrow> world" where
  "printf fmt as w = emit (Stdout (format fmt as)) w"

definition fprintf_stderr :: "string \<Rightarrow> string list \<Rightarrow> world \<Rightarrow> world" where
  "fprintf_stderr fmt as w = emit (Stderr (format fmt as)) w"

text \<open>
  \<^verbatim>\<open>fopen(p, "w")\<close>: on success the file exists and is empty; on failure nothing
  changes and the result is the null pointer.
\<close>

definition fopen_w :: "os \<Rightarrow> string \<Rightarrow> world \<Rightarrow> cfile option \<times> world" where
  "fopen_w os p w =
     (if fopen_ok os p
      then (Some \<lparr>fpath = p, fbuf = []\<rparr>, emit (Fopen p) (w\<lparr>files := (files w)(p \<mapsto> [])\<rparr>))
      else (None, emit (Fopen p) w))"

text \<open>
  \<^verbatim>\<open>fprintf(f, fmt, ...)\<close> on a file stream: the text goes to the stream's buffer and
  the call returns its length, or the call fails with a negative value.
\<close>

definition fprintf_file ::
  "os \<Rightarrow> cfile \<Rightarrow> string \<Rightarrow> string list \<Rightarrow> world \<Rightarrow> int \<times> cfile \<times> world" where
  "fprintf_file os f fmt as w =
     (let s = format fmt as; w' = emit (Fprintf (fpath f) s) w
      in if fprintf_ok os then (int (length s), f\<lparr>fbuf := fbuf f @ s\<rparr>, w')
         else (- 1, f, w'))"

text \<open>
  \<^verbatim>\<open>fclose(f)\<close> flushes the buffer: the storage keeps the first \<open>room os\<close> bytes, and
  the call returns \<^verbatim>\<open>EOF\<close> when that is not all of them.
\<close>

definition fclose :: "os \<Rightarrow> cfile \<Rightarrow> world \<Rightarrow> int \<times> world" where
  "fclose os f w =
     (if length (fbuf f) \<le> room os then 0 else - 1,
      emit (Fclose (fpath f)) (w\<lparr>files := (files w)(fpath f \<mapsto> take (room os) (fbuf f))\<rparr>))"

subsection \<open>The program\<close>

text \<open>
  The results of \<^verbatim>\<open>snprintf\<close>, of the write and of \<^verbatim>\<open>fclose\<close> are discarded, as in
  the source. The first component of the result is the exit status.
\<close>

definition main :: "os \<Rightarrow> world \<Rightarrow> int \<times> world" where
  "main os w0 =
     (case getenv os env_name of
        None \<Rightarrow> (1, fprintf_stderr msg_no_profile [] w0)
      | Some onedrive_path \<Rightarrow>
          let dest = fst (snprintf 512 fmt_dest [onedrive_path]);
              w1 = printf fmt_copying [dest] w0;
              (f, w2) = fopen_w os dest w1
          in (case f of
                None \<Rightarrow> (1, fprintf_stderr msg_open_failed [] w2)
              | Some f0 \<Rightarrow>
                  let (r1, f1, w3) = fprintf_file os f0 fmt_line [] w2;
                      (r2, w4) = fclose os f1 w3;
                      w5 = printf msg_created [] w4
                  in (0, w5)))"

text \<open>A run of the program on a file system \<open>fs\<close>, with nothing printed yet.\<close>

definition run :: "os \<Rightarrow> (string \<rightharpoonup> string) \<Rightarrow> int \<times> world" where
  "run os fs = main os \<lparr>files = fs, trace = []\<rparr>"

subsection \<open>Reading a run\<close>

fun stdout_of :: "event list \<Rightarrow> string" where
  "stdout_of [] = []"
| "stdout_of (Stdout s # es) = s @ stdout_of es"
| "stdout_of (e # es) = stdout_of es"

fun stderr_of :: "event list \<Rightarrow> string" where
  "stderr_of [] = []"
| "stderr_of (Stderr s # es) = s @ stderr_of es"
| "stderr_of (e # es) = stderr_of es"

fun opened :: "event list \<Rightarrow> string list" where
  "opened [] = []"
| "opened (Fopen p # es) = p # opened es"
| "opened (e # es) = opened es"


text \<open>The path the specification expects for a home directory.\<close>

definition suffix :: string where
  "suffix = [CHR 0x5C] @ ''OneDrive'' @ [CHR 0x5C] @ ''DatRainCacheTest.txt''"

definition expected_path :: "string \<Rightarrow> string" where
  "expected_path home = home @ suffix"

text \<open>The path the program builds.\<close>

definition dest_of :: "string \<Rightarrow> string" where
  "dest_of home = fst (snprintf 512 fmt_dest [home])"

definition progress :: "string \<Rightarrow> string" where
  "progress p = ''Copying file to: '' @ p @ [CHR 0x0A]"

text \<open>What the open of the destination decides, when the program gets that far.\<close>

definition open_outcome :: "os \<Rightarrow> bool option" where
  "open_outcome os = map_option (\<lambda>home. fopen_ok os (dest_of home)) (getenv os env_name)"

text \<open>The content of the destination file after a run that reported success.\<close>

definition stored :: "os \<Rightarrow> int \<times> world \<Rightarrow> string option" where
  "stored os r =
     (case getenv os env_name of
        None \<Rightarrow> None
      | Some home \<Rightarrow> if fst r = 0 then files (snd r) (dest_of home) else None)"

subsection \<open>Concrete environments\<close>

definition mk_os :: "string option \<Rightarrow> (string \<Rightarrow> bool) \<Rightarrow> bool \<Rightarrow> nat \<Rightarrow> os" where
  "mk_os h ok fp r =
     \<lparr>getenv = (\<lambda>v. if v = env_name then h else None), fopen_ok = ok, fprintf_ok = fp, room = r\<rparr>"

definition everywhere :: "string \<Rightarrow> bool" where
  "everywhere p = True"

definition nowhere :: "string \<Rightarrow> bool" where
  "nowhere p = False"

definition no_files :: "string \<rightharpoonup> string" where
  "no_files = Map.empty"

text \<open>A home directory whose name has a space in it.\<close>

definition home_ok :: string where
  "home_ok = ''C:'' @ [CHR 0x5C] @ ''Users'' @ [CHR 0x5C] @ ''Jo Bloggs''"

definition old_files :: "string \<rightharpoonup> string" where
  "old_files = no_files(expected_path home_ok \<mapsto> ''An older and longer content of the marker file.'')"

definition os_ok :: os where
  "os_ok = mk_os (Some home_ok) everywhere True 4096"

definition os_nodir :: os where
  "os_nodir = mk_os (Some home_ok) nowhere True 4096"

definition os_unset :: os where
  "os_unset = mk_os None everywhere True 4096"

definition os_empty :: os where
  "os_empty = mk_os (Some []) everywhere True 4096"

definition os_full :: os where
  "os_full = mk_os (Some home_ok) everywhere True 0"

text \<open>A home directory of 482 characters, one more than fits with the suffix.\<close>

definition long_home :: string where
  "long_home = replicate 482 (CHR ''a'')"

definition os_long :: os where
  "os_long = mk_os (Some long_home) everywhere True 4096"

text \<open>
  An environment that agrees with \<open>os_ok\<close> on the home directory and on the
  destination, and differs from it in another variable and on every other path.
\<close>

definition os_other :: os where
  "os_other =
     \<lparr>getenv = (\<lambda>v. if v = env_name then Some home_ok else Some ''x''),
      fopen_ok = (\<lambda>p. p = expected_path home_ok), fprintf_ok = True, room = 4096\<rparr>"

text \<open>
  A home directory of 482 characters in three components, none longer than a file name
  may be.
\<close>

definition deep_home :: string where
  "deep_home = ''/'' @ replicate 200 (CHR ''a'') @ ''/'' @ replicate 200 (CHR ''b'')
     @ ''/'' @ replicate 79 (CHR ''c'')"

definition os_deep :: os where
  "os_deep = mk_os (Some deep_home) everywhere True 4096"

subsection \<open>Buffering of standard output\<close>






section \<open>Properties\<close>

subsection \<open>Formatting the program's strings\<close>

lemma format_dest: "format fmt_dest [h] = h @ suffix"
  by (simp add: fmt_dest_def suffix_def)

lemma format_copying: "format fmt_copying [p] = progress p"
  by (simp add: fmt_copying_def progress_def)

lemma format_no_profile: "format msg_no_profile [] = msg_no_profile"
  by (simp add: msg_no_profile_def)

lemma format_open_failed: "format msg_open_failed [] = msg_open_failed"
  by (simp add: msg_open_failed_def)

lemma format_line: "format fmt_line [] = fmt_line"
  by (simp add: fmt_line_def)

lemma format_created: "format msg_created [] = msg_created"
  by (simp add: msg_created_def)

lemma length_suffix: "length suffix = 30"
  by (simp add: suffix_def)

lemma length_line: "length fmt_line = 29"
  by (simp add: fmt_line_def)

lemma dest_of_take: "dest_of home = take 511 (expected_path home)"
  by (simp add: dest_of_def snprintf_def format_dest expected_path_def)

lemma dest_of_short: "length home \<le> 481 \<Longrightarrow> dest_of home = expected_path home"
  by (simp add: dest_of_take expected_path_def length_suffix)

lemma dest_of_long: "481 < length home \<Longrightarrow> dest_of home \<noteq> expected_path home"
proof
  assume long: "481 < length home" and eq: "dest_of home = expected_path home"
  have "length (dest_of home) = 511"
    using long by (simp add: dest_of_take expected_path_def length_suffix)
  moreover have "511 < length (expected_path home)"
    using long by (simp add: expected_path_def length_suffix)
  ultimately show False
    using eq by simp
qed

subsection \<open>The three ways a run can go\<close>

lemma run_unset:
  "getenv os env_name = None \<Longrightarrow>
   run os fs = (1, \<lparr>files = fs, trace = [Stderr msg_no_profile]\<rparr>)"
  by (simp add: run_def main_def fprintf_stderr_def emit_def format_no_profile)

lemma run_open_failed:
  "getenv os env_name = Some home \<Longrightarrow> \<not> fopen_ok os (dest_of home) \<Longrightarrow>
   run os fs = (1, \<lparr>files = fs,
     trace = [Stdout (progress (dest_of home)), Fopen (dest_of home), Stderr msg_open_failed]\<rparr>)"
  by (simp add: run_def main_def fprintf_stderr_def printf_def fopen_w_def emit_def
      format_open_failed format_copying dest_of_def Let_def)

lemma run_opened:
  "getenv os env_name = Some home \<Longrightarrow> fopen_ok os (dest_of home) \<Longrightarrow>
   run os fs = (0, \<lparr>files = fs(dest_of home \<mapsto>
        take (room os) (if fprintf_ok os then fmt_line else [])),
     trace = [Stdout (progress (dest_of home)), Fopen (dest_of home),
        Fprintf (dest_of home) fmt_line, Fclose (dest_of home), Stdout msg_created]\<rparr>)"
  by (simp add: run_def main_def printf_def fopen_w_def fprintf_file_def fclose_def emit_def
      format_line format_created format_copying dest_of_def Let_def)

lemma getenv_mk_os: "getenv (mk_os h ok fp r) env_name = h"
  by (simp add: mk_os_def)

lemma length_home_ok: "length home_ok = 18"
  by (simp add: home_ok_def)

lemma length_long_home: "length long_home = 482"
  by (simp add: long_home_def)

lemma length_deep_home: "length deep_home = 482"
  by (simp add: deep_home_def)

subsection \<open>Texts that end a line\<close>









lemma messages_distinct:
  "progress q \<noteq> msg_no_profile" "progress q \<noteq> msg_open_failed"
  "msg_created \<noteq> msg_no_profile" "msg_created \<noteq> msg_open_failed"
  "msg_open_failed \<noteq> msg_no_profile" "msg_no_profile \<noteq> []"
  by (simp_all add: progress_def msg_no_profile_def msg_open_failed_def msg_created_def)

section \<open>The claims\<close>

subsection \<open>The marker file\<close>

text \<open>
  Claim C1, as amended. When \<^verbatim>\<open>USERPROFILE\<close> is set to a home directory of at most
  481 characters, the open of \<open>home\OneDrive\DatRainCacheTest.txt\<close> succeeds and the
  written line is stored in full, the run creates or truncates that file, its content
  is exactly the line \<open>This is a DatRain sync test.\<close> followed by a newline, and the
  exit status is 0.
\<close>

theorem marker_file_written:
  assumes "getenv os env_name = Some home" and "length home \<le> 481"
    and "fopen_ok os (expected_path home)" and "fprintf_ok os"
    and "length fmt_line \<le> room os"
  shows "files (snd (run os fs)) (expected_path home) = Some fmt_line
       \<and> fst (run os fs) = 0"
proof -
  have d: "dest_of home = expected_path home"
    using assms(2) by (rule dest_of_short)
  have "run os fs = (0, \<lparr>files = fs(dest_of home \<mapsto>
        take (room os) (if fprintf_ok os then fmt_line else [])),
     trace = [Stdout (progress (dest_of home)), Fopen (dest_of home),
        Fprintf (dest_of home) fmt_line, Fclose (dest_of home), Stdout msg_created]\<rparr>)"
    using assms(1,3) d by (intro run_opened) simp_all
  then show ?thesis
    using assms(4,5) d by simp
qed

text \<open>
  The theorem at a home directory with a space in its name, where the marker file
  already had another content.
\<close>

theorem marker_file_written_witness:
  "getenv os_ok env_name = Some home_ok \<and> length home_ok \<le> 481
   \<and> fopen_ok os_ok (expected_path home_ok) \<and> fprintf_ok os_ok
   \<and> length fmt_line \<le> room os_ok
   \<and> old_files (expected_path home_ok) \<noteq> Some fmt_line
   \<and> files (snd (run os_ok old_files)) (expected_path home_ok) = Some fmt_line
   \<and> fst (run os_ok old_files) = 0"
  using marker_file_written [of os_ok home_ok old_files]
  by (simp add: os_ok_def mk_os_def everywhere_def length_home_ok length_line old_files_def
      fmt_line_def)

text \<open>
  Without the bound on the length the statement fails. For a home directory of 482
  characters, here three directory names of 200, 200 and 79 characters, the path has
  512 characters and the buffer keeps 511 of them: the run writes the line to the file
  whose name ends in \<open>DatRainCacheTest.tx\<close> and exits with status 0. The file of the
  expected name is not created.
\<close>

theorem marker_file_long_home_counterexample:
  "getenv os_deep env_name = Some deep_home
   \<and> fopen_ok os_deep (expected_path deep_home) \<and> fprintf_ok os_deep
   \<and> length fmt_line \<le> room os_deep
   \<and> dest_of deep_home =
        deep_home @ [CHR 0x5C] @ ''OneDrive'' @ [CHR 0x5C] @ ''DatRainCacheTest.tx''
   \<and> fst (run os_deep no_files) = 0
   \<and> files (snd (run os_deep no_files)) (dest_of deep_home) = Some fmt_line
   \<and> files (snd (run os_deep no_files)) (expected_path deep_home) = None"
proof -
  have g: "getenv os_deep env_name = Some deep_home"
    by (simp add: os_deep_def getenv_mk_os)
  have o: "fopen_ok os_deep p" for p
    by (simp add: os_deep_def mk_os_def everywhere_def)
  have ne: "dest_of deep_home \<noteq> expected_path deep_home"
    by (rule dest_of_long) (simp add: length_deep_home)
  have w: "fprintf_ok os_deep" "room os_deep = 4096"
    by (simp_all add: os_deep_def mk_os_def)
  have cut: "dest_of deep_home =
      deep_home @ [CHR 0x5C] @ ''OneDrive'' @ [CHR 0x5C] @ ''DatRainCacheTest.tx''"
    by (simp add: dest_of_take expected_path_def length_deep_home suffix_def)
  have r: "files (snd (run os_deep no_files)) (dest_of deep_home) = Some fmt_line
      \<and> files (snd (run os_deep no_files)) (expected_path deep_home) = None
      \<and> fst (run os_deep no_files) = 0"
    using ne by (simp add: run_opened [OF g o] w length_line no_files_def)
  show ?thesis
    using g o w cut r by (simp add: length_line)
qed

subsection \<open>Failures\<close>

text \<open>
  Claim C2. When the open of the destination fails, the run exits with status 1, the
  text on standard error is the diagnostic that the file could not be opened, and no
  file has changed.
\<close>

theorem open_failure_reported:
  assumes "getenv os env_name = Some home" and "\<not> fopen_ok os (dest_of home)"
  shows "fst (run os fs) = 1
       \<and> stderr_of (trace (snd (run os fs))) = msg_open_failed
       \<and> stdout_of (trace (snd (run os fs))) = progress (dest_of home)
       \<and> files (snd (run os fs)) = fs"
  by (simp add: run_open_failed [OF assms])

text \<open>
  The theorem where no path can be opened.
\<close>

theorem open_failure_reported_witness:
  "getenv os_nodir env_name = Some home_ok \<and> \<not> fopen_ok os_nodir (dest_of home_ok)
   \<and> fst (run os_nodir old_files) = 1
   \<and> stderr_of (trace (snd (run os_nodir old_files))) = msg_open_failed
   \<and> files (snd (run os_nodir old_files)) = old_files"
  using open_failure_reported [of os_nodir home_ok old_files]
  by (simp add: os_nodir_def mk_os_def nowhere_def)

text \<open>
  Claim C3. When \<^verbatim>\<open>USERPROFILE\<close> is unset, the run exits with status 1, no file has
  changed, and the only call it makes is the one that prints the diagnostic on standard
  error: nothing is opened and nothing is written.
\<close>

theorem unset_home_reported:
  assumes "getenv os env_name = None"
  shows "fst (run os fs) = 1
       \<and> files (snd (run os fs)) = fs
       \<and> trace (snd (run os fs)) = [Stderr msg_no_profile]"
  by (simp add: run_unset [OF assms])

text \<open>
  The theorem in an environment without the variable.
\<close>

theorem unset_home_reported_witness:
  "getenv os_unset env_name = None
   \<and> fst (run os_unset old_files) = 1
   \<and> files (snd (run os_unset old_files)) = old_files
   \<and> opened (trace (snd (run os_unset old_files))) = []
   \<and> stdout_of (trace (snd (run os_unset old_files))) = []
   \<and> stderr_of (trace (snd (run os_unset old_files))) = msg_no_profile"
  using unset_home_reported [of os_unset old_files]
  by (simp add: os_unset_def mk_os_def)

text \<open>
  Claim C4, as amended. The program tests the variable for the null pointer only. When
  \<^verbatim>\<open>USERPROFILE\<close> is set and empty, the run builds the path
  \<open>\OneDrive\DatRainCacheTest.txt\<close>, prints the progress message and opens that path;
  it exits with status 0 when the open succeeds, and with status 1 and the diagnostic
  of the failed open otherwise. Only an unset variable is reported as not found: the
  text on standard error is that diagnostic exactly when the variable is unset.
\<close>

theorem empty_home_proceeds:
  "(getenv os env_name = Some [] \<longrightarrow>
      take 2 (trace (snd (run os fs))) = [Stdout (progress suffix), Fopen suffix]
      \<and> fst (run os fs) = (if fopen_ok os suffix then 0 else 1)
      \<and> stderr_of (trace (snd (run os fs))) =
          (if fopen_ok os suffix then [] else msg_open_failed))
   \<and> ((stderr_of (trace (snd (run os fs))) = msg_no_profile) = (getenv os env_name = None))"
proof (cases "getenv os env_name")
  case None
  then show ?thesis
    by (simp add: run_unset)
next
  case (Some home)
  have d: "dest_of [] = suffix"
    using dest_of_short [of "[]"] by (simp add: expected_path_def)
  show ?thesis
  proof (cases "fopen_ok os (dest_of home)")
    case True
    then show ?thesis
      using run_opened [OF Some, of fs] Some d messages_distinct(6) by auto
  next
    case False
    then show ?thesis
      using run_open_failed [OF Some, of fs] Some d messages_distinct(5) by auto
  qed
qed

text \<open>
  The theorem where the variable is empty and every path can be opened, and where the
  variable is unset.
\<close>

theorem empty_home_proceeds_witness:
  "getenv os_empty env_name = Some []
   \<and> take 2 (trace (snd (run os_empty old_files))) = [Stdout (progress suffix), Fopen suffix]
   \<and> fst (run os_empty old_files) = 0
   \<and> stderr_of (trace (snd (run os_empty old_files))) = []
   \<and> stderr_of (trace (snd (run os_empty old_files))) \<noteq> msg_no_profile
   \<and> getenv os_unset env_name = None
   \<and> stderr_of (trace (snd (run os_unset old_files))) = msg_no_profile"
  using empty_home_proceeds [of os_empty old_files] empty_home_proceeds [of os_unset old_files]
    messages_distinct(6)
  by (auto simp add: os_empty_def os_unset_def mk_os_def everywhere_def)

text \<open>
  An empty value is not reported as an error: here the run with an empty home
  directory opens the path, writes the line, prints nothing on standard error and exits
  with status 0.
\<close>

theorem empty_home_counterexample:
  "getenv os_empty env_name = Some []
   \<and> fst (run os_empty no_files) = 0
   \<and> stderr_of (trace (snd (run os_empty no_files))) = []
   \<and> opened (trace (snd (run os_empty no_files))) = [suffix]
   \<and> files (snd (run os_empty no_files)) suffix = Some fmt_line"
proof -
  have g: "getenv os_empty env_name = Some []"
    by (simp add: os_empty_def getenv_mk_os)
  have o: "fopen_ok os_empty p" for p
    by (simp add: os_empty_def mk_os_def everywhere_def)
  have d: "dest_of [] = suffix"
    using dest_of_short [of "[]"] by (simp add: expected_path_def)
  have w: "fprintf_ok os_empty" "room os_empty = 4096"
    by (simp_all add: os_empty_def mk_os_def)
  show ?thesis
    by (simp add: run_opened [OF g o] g w d length_line)
qed

subsection \<open>The path that is printed and the path that is opened\<close>

text \<open>
  Claim C5. For every home directory that is set and not empty, the first two calls of
  the run are the print of the progress message and the open, both with the same path,
  character for character, and nothing else is opened.
\<close>

theorem printed_path_is_opened_path:
  assumes "getenv os env_name = Some home" and "home \<noteq> []"
  shows "take 2 (trace (snd (run os fs))) =
           [Stdout (progress (dest_of home)), Fopen (dest_of home)]
       \<and> opened (trace (snd (run os fs))) = [dest_of home]"
proof (cases "fopen_ok os (dest_of home)")
  case True
  then show ?thesis
    by (simp add: run_opened [OF assms(1)])
next
  case False
  then show ?thesis
    by (simp add: run_open_failed [OF assms(1)])
qed

text \<open>
  The theorem at a home directory with a space in its name.
\<close>

theorem printed_path_is_opened_path_witness:
  "getenv os_ok env_name = Some home_ok \<and> home_ok \<noteq> [] \<and> CHR '' '' \<in> set home_ok
   \<and> take 2 (trace (snd (run os_ok no_files))) =
        [Stdout (progress (expected_path home_ok)), Fopen (expected_path home_ok)]
   \<and> opened (trace (snd (run os_ok no_files))) = [expected_path home_ok]"
  using printed_path_is_opened_path [of os_ok home_ok no_files]
    dest_of_short [of home_ok]
  by (simp add: os_ok_def getenv_mk_os length_home_ok) (simp add: home_ok_def)

subsection \<open>Running twice\<close>

text \<open>
  Claim C6. Let a first run open the destination, and let a second run follow on the
  files it left, with the same home directory and a storage that behaves alike; whether
  the second open succeeds is left open. The first run leaves in the destination the
  part of the line that was stored. The second run leaves the destination, and every
  other file, as the first run left them; when its open succeeds it truncates the
  destination, writes the line again, closes it and exits with status 0. When the line
  is stored in full the destination holds exactly the line after both runs. A second
  run in the very same environment repeats the first in every respect.
\<close>

theorem second_run_idempotent:
  assumes "getenv os1 env_name = Some home" and "getenv os2 env_name = Some home"
    and "fopen_ok os1 (dest_of home)"
    and "fprintf_ok os2 = fprintf_ok os1" and "room os2 = room os1"
  shows "files (snd (run os1 fs)) (dest_of home) =
           Some (take (room os1) (if fprintf_ok os1 then fmt_line else []))
       \<and> files (snd (run os2 (files (snd (run os1 fs))))) (dest_of home) =
           files (snd (run os1 fs)) (dest_of home)
       \<and> files (snd (run os2 (files (snd (run os1 fs))))) = files (snd (run os1 fs))
       \<and> (fopen_ok os2 (dest_of home) \<longrightarrow>
            fst (run os2 (files (snd (run os1 fs)))) = 0
            \<and> trace (snd (run os2 (files (snd (run os1 fs))))) =
                [Stdout (progress (dest_of home)), Fopen (dest_of home),
                 Fprintf (dest_of home) fmt_line, Fclose (dest_of home), Stdout msg_created])
       \<and> (fprintf_ok os1 \<and> length fmt_line \<le> room os1 \<longrightarrow>
            files (snd (run os2 (files (snd (run os1 fs))))) (dest_of home) = Some fmt_line)
       \<and> run os1 (files (snd (run os1 fs))) = run os1 fs"
proof -
  let ?d = "dest_of home"
  let ?v = "take (room os1) (if fprintf_ok os1 then fmt_line else [])"
  let ?t = "[Stdout (progress ?d), Fopen ?d, Fprintf ?d fmt_line, Fclose ?d, Stdout msg_created]"
  have first: "run os1 fs = (0, \<lparr>files = fs(?d \<mapsto> ?v), trace = ?t\<rparr>)"
    using assms(1,3) by (rule run_opened)
  then have f1: "files (snd (run os1 fs)) = fs(?d \<mapsto> ?v)"
    by simp
  have again: "run os1 (fs(?d \<mapsto> ?v)) = run os1 fs"
    by (simp add: run_opened [OF assms(1,3)])
  have full: "fprintf_ok os1 \<and> length fmt_line \<le> room os1 \<longrightarrow> ?v = fmt_line"
    by simp
  have kept: "files (snd (run os2 (fs(?d \<mapsto> ?v)))) = fs(?d \<mapsto> ?v)"
  proof (cases "fopen_ok os2 ?d")
    case True
    show ?thesis
      by (simp add: run_opened [OF assms(2) True] assms(4,5))
  next
    case False
    show ?thesis
      by (simp add: run_open_failed [OF assms(2) False])
  qed
  have rewritten: "fopen_ok os2 ?d \<longrightarrow>
      fst (run os2 (fs(?d \<mapsto> ?v))) = 0 \<and> trace (snd (run os2 (fs(?d \<mapsto> ?v)))) = ?t"
  proof
    assume ok: "fopen_ok os2 ?d"
    show "fst (run os2 (fs(?d \<mapsto> ?v))) = 0 \<and> trace (snd (run os2 (fs(?d \<mapsto> ?v)))) = ?t"
      by (simp add: run_opened [OF assms(2) ok])
  qed
  have c5: "fprintf_ok os1 \<and> length fmt_line \<le> room os1 \<longrightarrow>
      files (snd (run os2 (fs(?d \<mapsto> ?v)))) ?d = Some fmt_line"
    unfolding kept using full by simp
  show ?thesis
    unfolding f1
  proof (intro conjI)
    show "(fs(?d \<mapsto> ?v)) ?d = Some ?v"
      by simp
    show "files (snd (run os2 (fs(?d \<mapsto> ?v)))) ?d = (fs(?d \<mapsto> ?v)) ?d"
      by (simp only: kept)
    show "files (snd (run os2 (fs(?d \<mapsto> ?v)))) = fs(?d \<mapsto> ?v)"
      by (rule kept)
    show "fopen_ok os2 ?d \<longrightarrow>
        fst (run os2 (fs(?d \<mapsto> ?v))) = 0 \<and> trace (snd (run os2 (fs(?d \<mapsto> ?v)))) = ?t"
      by (rule rewritten)
    show "fprintf_ok os1 \<and> length fmt_line \<le> room os1 \<longrightarrow>
        files (snd (run os2 (fs(?d \<mapsto> ?v)))) ?d = Some fmt_line"
      by (rule c5)
    show "run os1 (fs(?d \<mapsto> ?v)) = run os1 fs"
      by (rule again)
  qed
qed

text \<open>
  The theorem where the marker file had another content before the first run: after
  the first run it holds the line, and after a second run too, both when the second
  open succeeds and when it fails.
\<close>

theorem second_run_idempotent_witness:
  "getenv os_ok env_name = Some home_ok \<and> getenv os_nodir env_name = Some home_ok
   \<and> fopen_ok os_ok (dest_of home_ok) \<and> \<not> fopen_ok os_nodir (dest_of home_ok)
   \<and> fprintf_ok os_nodir = fprintf_ok os_ok \<and> room os_nodir = room os_ok
   \<and> fprintf_ok os_ok \<and> length fmt_line \<le> room os_ok
   \<and> old_files (dest_of home_ok) \<noteq> Some fmt_line
   \<and> files (snd (run os_ok old_files)) (dest_of home_ok) = Some fmt_line
   \<and> files (snd (run os_ok (files (snd (run os_ok old_files))))) (dest_of home_ok) = Some fmt_line
   \<and> fst (run os_ok (files (snd (run os_ok old_files)))) = 0
   \<and> files (snd (run os_nodir (files (snd (run os_ok old_files))))) (dest_of home_ok)
        = Some fmt_line"
proof -
  have d: "dest_of home_ok = expected_path home_ok"
    by (rule dest_of_short) (simp add: length_home_ok)
  have g: "getenv os_ok env_name = Some home_ok" "getenv os_nodir env_name = Some home_ok"
    by (simp_all add: os_ok_def os_nodir_def getenv_mk_os)
  have o: "fopen_ok os_ok (dest_of home_ok)" "\<not> fopen_ok os_nodir (dest_of home_ok)"
    by (simp_all add: os_ok_def os_nodir_def mk_os_def everywhere_def nowhere_def)
  have w: "fprintf_ok os_ok" "room os_ok = 4096" "fprintf_ok os_nodir" "room os_nodir = 4096"
    by (simp_all add: os_ok_def os_nodir_def mk_os_def)
  have old: "old_files (dest_of home_ok) \<noteq> Some fmt_line"
    by (simp add: d old_files_def fmt_line_def)
  show ?thesis
    using second_run_idempotent [of os_ok home_ok os_ok old_files]
      second_run_idempotent [of os_ok home_ok os_nodir old_files] g o w old
    by (simp add: length_line)
qed

subsection \<open>Order of the calls and the two output streams\<close>




subsection \<open>Results that are not inspected\<close>

text \<open>
  Claim C8. Whenever the open succeeds, the run exits with status 0 and its last call
  prints the success message, whatever the write and the close did: the file holds the
  part of the line that was accepted, which may be less than the line.
\<close>

theorem open_success_reported:
  assumes "getenv os env_name = Some home" and "fopen_ok os (dest_of home)"
  shows "fst (run os fs) = 0
       \<and> last (trace (snd (run os fs))) = Stdout msg_created
       \<and> stderr_of (trace (snd (run os fs))) = []
       \<and> files (snd (run os fs)) (dest_of home) =
           Some (take (room os) (if fprintf_ok os then fmt_line else []))"
  by (simp add: run_opened [OF assms])

text \<open>
  The theorem where the storage takes no byte: the close returns \<^verbatim>\<open>EOF\<close>, the file
  is empty, and the run still exits with status 0 after the success message.
\<close>

theorem open_success_reported_witness:
  "getenv os_full env_name = Some home_ok \<and> fopen_ok os_full (dest_of home_ok)
   \<and> fst (fclose os_full \<lparr>fpath = dest_of home_ok, fbuf = fmt_line\<rparr>
          \<lparr>files = no_files, trace = []\<rparr>) = - 1
   \<and> files (snd (run os_full no_files)) (dest_of home_ok) = Some []
   \<and> fst (run os_full no_files) = 0
   \<and> last (trace (snd (run os_full no_files))) = Stdout msg_created"
  using open_success_reported [of os_full home_ok no_files]
  by (simp add: os_full_def mk_os_def everywhere_def fclose_def length_line)

subsection \<open>The 512-byte buffer\<close>

text \<open>
  Claim C9. The path the program builds, with its terminator, fits in 512 bytes: it is
  the first 511 characters of the home directory followed by the fixed suffix. When the
  home directory and the suffix have more than 511 characters, the built path differs
  from the full one, and the run goes on with it: it prints it, opens it, and the only
  diagnostic it can print is the one of a failed open.
\<close>

theorem dest_never_overflows:
  "length (dest_of home) + 1 \<le> 512
   \<and> dest_of home = take 511 (expected_path home)
   \<and> (getenv os env_name = Some home \<and> 511 < length (expected_path home) \<longrightarrow>
        dest_of home \<noteq> expected_path home
        \<and> take 2 (trace (snd (run os fs))) =
            [Stdout (progress (take 511 (expected_path home))), Fopen (take 511 (expected_path home))]
        \<and> stderr_of (trace (snd (run os fs))) =
            (if fopen_ok os (take 511 (expected_path home)) then [] else msg_open_failed)
        \<and> fst (run os fs) = (if fopen_ok os (take 511 (expected_path home)) then 0 else 1))"
proof (intro conjI impI)
  show "length (dest_of home) + 1 \<le> 512"
    by (simp add: dest_of_take)
  show "dest_of home = take 511 (expected_path home)"
    by (rule dest_of_take)
next
  assume h: "getenv os env_name = Some home \<and> 511 < length (expected_path home)"
  then have g: "getenv os env_name = Some home" and long: "481 < length home"
    by (simp_all add: expected_path_def length_suffix)
  show "dest_of home \<noteq> expected_path home"
    using long by (rule dest_of_long)
  show "take 2 (trace (snd (run os fs))) =
      [Stdout (progress (take 511 (expected_path home))), Fopen (take 511 (expected_path home))]"
    using run_opened [OF g, of fs] run_open_failed [OF g, of fs]
    by (cases "fopen_ok os (dest_of home)") (simp_all add: dest_of_take)
  show "stderr_of (trace (snd (run os fs))) =
      (if fopen_ok os (take 511 (expected_path home)) then [] else msg_open_failed)"
    using run_opened [OF g, of fs] run_open_failed [OF g, of fs]
    by (cases "fopen_ok os (dest_of home)") (simp_all add: dest_of_take)
  show "fst (run os fs) = (if fopen_ok os (take 511 (expected_path home)) then 0 else 1)"
    using run_opened [OF g, of fs] run_open_failed [OF g, of fs]
    by (cases "fopen_ok os (dest_of home)") (simp_all add: dest_of_take)
qed

text \<open>
  The theorem at a home directory of 482 characters.
\<close>

theorem dest_never_overflows_witness:
  "getenv os_long env_name = Some long_home \<and> 511 < length (expected_path long_home)
   \<and> length (dest_of long_home) = 511
   \<and> dest_of long_home \<noteq> expected_path long_home
   \<and> opened (trace (snd (run os_long no_files))) = [take 511 (expected_path long_home)]
   \<and> stderr_of (trace (snd (run os_long no_files))) = []
   \<and> fst (run os_long no_files) = 0"
proof -
  have g: "getenv os_long env_name = Some long_home"
    by (simp add: os_long_def getenv_mk_os)
  have o: "fopen_ok os_long p" for p
    by (simp add: os_long_def mk_os_def everywhere_def)
  have l: "length (expected_path long_home) = 512"
    by (simp add: expected_path_def length_long_home length_suffix)
  show ?thesis
    using dest_never_overflows [of long_home os_long no_files] l
    by (simp add: g o run_opened [OF g o] dest_of_take)
qed

subsection \<open>What a run depends on\<close>

text \<open>
  Claim C10, as amended. Two runs with the same value (or absence) of
  \<^verbatim>\<open>USERPROFILE\<close> and the same outcome of the open of the destination have the same
  exit status and the same calls with the same arguments: the same destination path,
  the same text on standard output and standard error, the same bytes given to the
  write. When the write is accepted alike and the storage takes as many bytes in both,
  the content stored in the destination is the same too. Nothing else of the
  environment or of the files matters.
\<close>

theorem run_deterministic:
  assumes "getenv os1 env_name = getenv os2 env_name"
    and "open_outcome os1 = open_outcome os2"
  shows "fst (run os1 fs1) = fst (run os2 fs2)
       \<and> trace (snd (run os1 fs1)) = trace (snd (run os2 fs2))
       \<and> (fprintf_ok os1 = fprintf_ok os2 \<and> room os1 = room os2 \<longrightarrow>
            stored os1 (run os1 fs1) = stored os2 (run os2 fs2))"
proof (cases "getenv os1 env_name")
  case None
  then have "getenv os2 env_name = None"
    using assms(1) by simp
  with None show ?thesis
    by (simp add: run_unset stored_def)
next
  case (Some home)
  then have g2: "getenv os2 env_name = Some home"
    using assms(1) by simp
  have same: "fopen_ok os1 (dest_of home) = fopen_ok os2 (dest_of home)"
    using assms(2) Some g2 by (simp add: open_outcome_def)
  show ?thesis
  proof (cases "fopen_ok os1 (dest_of home)")
    case True
    then have "fopen_ok os2 (dest_of home)"
      using same by simp
    with True show ?thesis
      by (simp add: run_opened [OF Some] run_opened [OF g2] stored_def Some g2)
  next
    case False
    then have "\<not> fopen_ok os2 (dest_of home)"
      using same by simp
    with False show ?thesis
      by (simp add: run_open_failed [OF Some] run_open_failed [OF g2] stored_def Some g2)
  qed
qed

text \<open>
  The theorem at two environments that differ in another variable, in the paths that
  can be opened elsewhere and in the files present.
\<close>

theorem run_deterministic_witness:
  "getenv os_ok env_name = getenv os_other env_name
   \<and> open_outcome os_ok = open_outcome os_other
   \<and> fprintf_ok os_ok = fprintf_ok os_other \<and> room os_ok = room os_other
   \<and> getenv os_ok ''PATH'' \<noteq> getenv os_other ''PATH''
   \<and> fopen_ok os_ok [] \<noteq> fopen_ok os_other []
   \<and> no_files \<noteq> old_files
   \<and> fst (run os_ok no_files) = fst (run os_other old_files)
   \<and> trace (snd (run os_ok no_files)) = trace (snd (run os_other old_files))
   \<and> stored os_ok (run os_ok no_files) = stored os_other (run os_other old_files)"
proof -
  have d: "dest_of home_ok = expected_path home_ok"
    by (rule dest_of_short) (simp add: length_home_ok)
  have g: "getenv os_ok env_name = getenv os_other env_name"
    by (simp add: os_ok_def os_other_def mk_os_def)
  have oo: "open_outcome os_ok = open_outcome os_other"
    by (simp add: open_outcome_def os_ok_def os_other_def mk_os_def everywhere_def d)
  have ne: "no_files \<noteq> old_files"
  proof
    assume "no_files = old_files"
    then have "no_files (expected_path home_ok) = old_files (expected_path home_ok)"
      by simp
    then show False
      by (simp add: no_files_def old_files_def)
  qed
  have misc: "fprintf_ok os_ok = fprintf_ok os_other" "room os_ok = room os_other"
    "getenv os_ok ''PATH'' \<noteq> getenv os_other ''PATH''"
    "fopen_ok os_ok [] \<noteq> fopen_ok os_other []"
    by (simp_all add: os_ok_def os_other_def mk_os_def everywhere_def env_name_def
        expected_path_def suffix_def)
  show ?thesis
    using run_deterministic [OF g oo, of no_files old_files] ne misc g oo by simp
qed

text \<open>
  The value of the variable alone does not fix the exit status: with the same home
  directory, a run whose open succeeds exits with 0 and a run whose open fails exits
  with 1.
\<close>

theorem exit_status_counterexample:
  "getenv os_ok env_name = getenv os_nodir env_name
   \<and> fst (run os_ok no_files) = 0 \<and> fst (run os_nodir no_files) = 1"
proof -
  have g: "getenv os_ok env_name = Some home_ok" "getenv os_nodir env_name = Some home_ok"
    by (simp_all add: os_ok_def os_nodir_def getenv_mk_os)
  have o: "fopen_ok os_ok (dest_of home_ok)" "\<not> fopen_ok os_nodir (dest_of home_ok)"
    by (simp_all add: os_ok_def os_nodir_def mk_os_def everywhere_def nowhere_def)
  show ?thesis
    by (simp add: g run_opened [OF g(1) o(1)] run_open_failed [OF g(2) o(2)])
qed

end
